theory Spec2Isabelle
  imports Main
begin

section \<open>Data model\<close>

text \<open>
  Identifiers are presented in their stable string forms (UUID text, key-fingerprint hex).
  A Go \<^verbatim>\<open>error\<close> is an interface value: the API client's sentinel errors are compared
  by identity (\<^verbatim>\<open>err == api.ErrForbidden\<close>), every other error is made by
  \<^verbatim>\<open>fmt.Errorf\<close> and carries its message. \<^verbatim>\<open>nil\<close> is \<open>None\<close> of \<open>error option\<close>.
\<close>

type_synonym uuid = string
type_synonym fingerprint = string

datatype error =
    ErrPublicKeyNotFound
  | ErrTeamNotFound
  | ErrForbidden
  | Errorf string

text \<open>The text \<^verbatim>\<open>%v\<close> prints for an error: its \<^verbatim>\<open>Error()\<close> string.\<close>

fun Error :: "error \<Rightarrow> string" where
  "Error ErrPublicKeyNotFound = ''Public key not found''"
| "Error ErrTeamNotFound = ''Team not found''"
| "Error ErrForbidden = ''Forbidden''"
| "Error (Errorf msg) = msg"

record Person =
  Email :: string
  Fingerprint :: fingerprint
  IsAdmin :: bool

text \<open>
  A team as the \<^verbatim>\<open>team\<close> package holds it: the parsed fields and the roster document
  with its detached signature that \<^verbatim>\<open>t.Roster()\<close> hands back.
\<close>

record Team =
  UUID :: uuid
  Name :: string
  People :: "Person list"
  roster :: string
  signature :: string

section \<open>The roster update validator (package team)\<close>

text \<open>
  \<^verbatim>\<open>ValidateUpdate(before *Team, after *Team, me *Person) error\<close>. Both team pointers
  are dereferenced by the first check, so the model takes the teams they point to;
  \<^verbatim>\<open>me\<close> is never dereferenced and may be \<^verbatim>\<open>nil\<close>, which is \<open>None\<close>.
  The source calls \<^verbatim>\<open>validateIAmAdmin(before, after)\<close>; the declared third parameter is
  unused by the body, the model passes \<open>me\<close> on.
\<close>

definition validateTeamUUID :: "Team \<Rightarrow> Team \<Rightarrow> error option" where
  "validateTeamUUID before after =
     (if UUID before \<noteq> UUID after then Some (Errorf ''can't change team UUID'') else None)"

definition validateTeamNameCantChange :: "Team \<Rightarrow> Team \<Rightarrow> error option" where
  "validateTeamNameCantChange before after =
     (if Name before \<noteq> Name after then Some (Errorf ''can't change team name'') else None)"

definition validateIAmAdmin :: "Team \<Rightarrow> Team \<Rightarrow> Person option \<Rightarrow> error option" where
  "validateIAmAdmin before after me = Some (Errorf ''not implemented'')"

definition ValidateUpdate :: "Team \<Rightarrow> Team \<Rightarrow> Person option \<Rightarrow> error option" where
  "ValidateUpdate before after me =
     (case validateTeamUUID before after of
        Some err \<Rightarrow> Some err
      | None \<Rightarrow>
         (case validateTeamNameCantChange before after of
            Some err \<Rightarrow> Some err
          | None \<Rightarrow>
             (case validateIAmAdmin before after me of
                Some err \<Rightarrow> Some err
              | None \<Rightarrow> None)))"

section \<open>The synchronisation run (package fk): state and collaborators\<close>

text \<open>
  A key handle (\<^verbatim>\<open>*pgpkey.PgpKey\<close>) is opaque to this code; it is a string here.
  Of a request to join a team, the fields the run reads. Times are nanoseconds on one
  clock, so \<^verbatim>\<open>time.Now().Sub(request.RequestedAt)\<close> is a difference of integers
  (Go saturates the difference at the ends of \<^verbatim>\<open>int64\<close>, which leaves every comparison
  with seven days as it is).
\<close>

type_synonym PgpKey = string

record RequestToJoinTeam =
  TeamUUID :: uuid
  TeamName :: string
  Fingerprint :: fingerprint
  RequestedAt :: int

text \<open>
  What the run does to the outside is kept as a list of events, in order: every call
  of a collaborator and every message printed for the user. Of a message the kind, the
  headline and the error are kept; body lines, colours and line breaks are left out, and
  so are the \<^verbatim>\<open>log.Printf\<close> debugging lines.
\<close>

datatype ui_message =
    Header string
  | Text string
  | Failed string
  | FormatFailure string "error option"
  | FormatWarning string "error option"
  | FormatInfo string
  | FormatSuccess string

datatype event =
    Printed ui_message
  | CalledRequestsToJoinTeams
  | CalledMemberships
  | CalledLoadPgpKey fingerprint
  | CalledGetDecryptedPrivateKey PgpKey
  | CalledGetTeamRoster PgpKey uuid
  | CalledGetPublicKeyByFingerprint fingerprint
  | CalledVerifyRoster string string "PgpKey list"
  | CalledSave string string string
  | CalledImportArmoredKey string
  | CalledDeleteRequestToJoinTeam uuid fingerprint

text \<open>
  The state the run works on: the trusted roster store (team directory to roster and
  signature), the local database of join requests, and the events so far.
\<close>

record world =
  rosters :: "string \<rightharpoonup> string \<times> string"
  requests :: "RequestToJoinTeam list"
  events :: "event list"

definition call :: "event \<Rightarrow> world \<Rightarrow> world" where
  "call ev w = w\<lparr>events := events w @ [ev]\<rparr>"

text \<open>The calls of \<^verbatim>\<open>RosterSaver.Save\<close> made so far, in order.\<close>

fun is_CalledSave :: "event \<Rightarrow> bool" where
  "is_CalledSave (CalledSave directory roster' signature') = True"
| "is_CalledSave ev = False"

definition saves :: "world \<Rightarrow> event list" where
  "saves w = filter is_CalledSave (events w)"

text \<open>
  The collaborators whose code is outside the sources (remote service, keyring, password
  prompt, disk, clock) are parameters of the model: each field answers one call. An answer
  may depend on the state at the time of the call, which holds everything done so far, so
  the same call may be answered differently later in the run. Parsing, signature
  verification and the directory name of a team depend on their arguments only.
\<close>

record env =
  user_RequestsToJoinTeams :: "world \<Rightarrow> error option"
  user_Memberships :: "world \<Rightarrow> error + (Team \<times> Person) list"
  loadPgpKey :: "world \<Rightarrow> fingerprint \<Rightarrow> error + PgpKey"
  getDecryptedPrivateKeyAndPassword :: "world \<Rightarrow> PgpKey \<Rightarrow> error + PgpKey"
  client_GetTeamRoster :: "world \<Rightarrow> PgpKey \<Rightarrow> uuid \<Rightarrow> error + string \<times> string"
  client_GetPublicKeyByFingerprint :: "world \<Rightarrow> fingerprint \<Rightarrow> error + PgpKey"
  team_VerifyRoster :: "string \<Rightarrow> string \<Rightarrow> PgpKey list \<Rightarrow> error option"
  team_Directory :: "Team \<Rightarrow> error + string"
  team_Load :: "string \<Rightarrow> string \<Rightarrow> error + Team"
  saver_Save :: "world \<Rightarrow> string \<Rightarrow> string \<Rightarrow> string \<Rightarrow> error option"
  key_Armor :: "PgpKey \<Rightarrow> error + string"
  gpg_ImportArmoredKey :: "world \<Rightarrow> string \<Rightarrow> error option"
  db_DeleteRequestToJoinTeam :: "world \<Rightarrow> uuid \<Rightarrow> fingerprint \<Rightarrow> error option"
  time_Now :: "world \<Rightarrow> int"

text \<open>
  Modelled from the spec: \<^verbatim>\<open>Team.Admins\<close> and \<^verbatim>\<open>Team.Roster\<close> of package team are not
  among the sources. The admins are the people whose admin flag is set; \<^verbatim>\<open>Roster\<close> returns
  the roster document and signature the team was loaded from.
\<close>

definition Admins :: "Team \<Rightarrow> Person list" where
  "Admins t = filter IsAdmin (People t)"

definition Roster :: "Team \<Rightarrow> string \<times> string" where
  "Roster t = (roster t, signature t)"

text \<open>
  Modelled from the spec: \<^verbatim>\<open>team.RosterSaver.Save\<close> is not among the sources. Section 6
  gives \<^verbatim>\<open>Save(teamID, rosterBytes, signature)\<close> returning an error and asks for it to be
  atomic: a failed save leaves the stored roster as it was, a successful one replaces it.
\<close>

definition Save :: "env \<Rightarrow> string \<Rightarrow> string \<Rightarrow> string \<Rightarrow> world \<Rightarrow> error option \<times> world" where
  "Save env directory roster' signature' w =
     (let w1 = call (CalledSave directory roster' signature') w in
      case saver_Save env w directory roster' signature' of
        Some err \<Rightarrow> (Some err, w1)
      | None \<Rightarrow> (None, w1\<lparr>rosters := (rosters w1)(directory \<mapsto> (roster', signature'))\<rparr>))"

text \<open>
  Modelled from the spec: the local database of join requests (\<^verbatim>\<open>user.RequestsToJoinTeams\<close>,
  \<^verbatim>\<open>db.DeleteRequestToJoinTeam\<close>) is not among the sources. Listing returns the stored
  requests; deleting removes the records of that team and requester, or fails and removes
  nothing.
\<close>

definition RequestsToJoinTeams :: "env \<Rightarrow> world \<Rightarrow> (error + RequestToJoinTeam list) \<times> world" where
  "RequestsToJoinTeams env w =
     (case user_RequestsToJoinTeams env w of
        Some err \<Rightarrow> (Inl err, call CalledRequestsToJoinTeams w)
      | None \<Rightarrow> (Inr (requests w), call CalledRequestsToJoinTeams w))"

definition DeleteRequestToJoinTeam ::
  "env \<Rightarrow> uuid \<Rightarrow> fingerprint \<Rightarrow> world \<Rightarrow> error option \<times> world" where
  "DeleteRequestToJoinTeam env teamUUID fingerprint w =
     (let w1 = call (CalledDeleteRequestToJoinTeam teamUUID fingerprint) w in
      case db_DeleteRequestToJoinTeam env w teamUUID fingerprint of
        Some err \<Rightarrow> (Some err, w1)
      | None \<Rightarrow>
          (None, w1\<lparr>requests :=
             filter (\<lambda>r. \<not> (TeamUUID r = teamUUID \<and> RequestToJoinTeam.Fingerprint r = fingerprint))
               (requests w1)\<rparr>))"

text \<open>
  Modelled from the spec: \<^verbatim>\<open>ui.RunWithCheckboxes\<close> is not among the sources. It prints the
  label, runs the action and hands the action's error back (section 4.6, step 6: a failure
  to fetch or import one member's key is reported).
\<close>

definition RunWithCheckboxes ::
  "string \<Rightarrow> (world \<Rightarrow> error option \<times> world) \<Rightarrow> world \<Rightarrow> error option \<times> world" where
  "RunWithCheckboxes msg action w = action (call (Printed (Text msg)) w)"

section \<open>The synchronisation run (package fk): the code\<close>

definition loadPrivateKeyFromFingerprint ::
  "env \<Rightarrow> fingerprint \<Rightarrow> world \<Rightarrow> (error + PgpKey) \<times> world" where
  "loadPrivateKeyFromFingerprint env fingerprint w =
     (let w1 = call (CalledLoadPgpKey fingerprint) w in
      case loadPgpKey env w fingerprint of
        Inl err \<Rightarrow> (Inl err, w1)
      | Inr key \<Rightarrow>
          (let w2 = call (CalledGetDecryptedPrivateKey key) w1 in
           case getDecryptedPrivateKeyAndPassword env w1 key of
             Inl err \<Rightarrow> (Inl err, w2)
           | Inr unlockedKey \<Rightarrow> (Inr unlockedKey, w2)))"

definition getAndImportKeyToGpg :: "env \<Rightarrow> fingerprint \<Rightarrow> world \<Rightarrow> error option \<times> world" where
  "getAndImportKeyToGpg env fingerprint w =
     (let w1 = call (CalledGetPublicKeyByFingerprint fingerprint) w in
      case client_GetPublicKeyByFingerprint env w fingerprint of
        Inl err \<Rightarrow>
          (if err = ErrPublicKeyNotFound then (Some (Errorf ''Couldn't find key''), w1)
           else (Some (Errorf ''Got error from Fluidkeys server''), w1))
      | Inr key \<Rightarrow>
          (case key_Armor env key of
             Inl err \<Rightarrow> (Some (Errorf ''failed to ASCII armor key''), w1)
           | Inr armoredKey \<Rightarrow>
               (let w2 = call (CalledImportArmoredKey armoredKey) w1 in
                case gpg_ImportArmoredKey env w1 armoredKey of
                  Some err \<Rightarrow> (Some (Errorf ''Failed to import key into gpg''), w2)
                | None \<Rightarrow> (None, w2))))"

text \<open>
  \<^verbatim>\<open>discoverPublicKey\<close>: the local keyring first; the remote service only when the keyring
  has no answer; an error when both fail.
\<close>

definition discoverPublicKey :: "env \<Rightarrow> fingerprint \<Rightarrow> world \<Rightarrow> (error + PgpKey) \<times> world" where
  "discoverPublicKey env fingerprint w =
     (let w1 = call (CalledLoadPgpKey fingerprint) w in
      case loadPgpKey env w fingerprint of
        Inr key \<Rightarrow> (Inr key, w1)
      | Inl err \<Rightarrow>
          (let w2 = call (CalledGetPublicKeyByFingerprint fingerprint) w1 in
           case client_GetPublicKeyByFingerprint env w1 fingerprint of
             Inr key \<Rightarrow> (Inr key, w2)
           | Inl err' \<Rightarrow>
               (Inl (Errorf (''failed multiple attempts to find get public key for '' @ fingerprint)),
                w2)))"

text \<open>The loop of \<^verbatim>\<open>fetchAdminPublicKeys\<close> over \<^verbatim>\<open>t.Admins()\<close>, with the keys gathered so far.\<close>

fun fetchAdminPublicKeys_loop ::
  "env \<Rightarrow> Person list \<Rightarrow> PgpKey list \<Rightarrow> world \<Rightarrow> (error + PgpKey list) \<times> world" where
  "fetchAdminPublicKeys_loop env [] adminKeys w = (Inr adminKeys, w)"
| "fetchAdminPublicKeys_loop env (p # ps) adminKeys w =
     (case discoverPublicKey env (Person.Fingerprint p) w of
        (Inl err, w1) \<Rightarrow> (Inl err, w1)
      | (Inr key, w1) \<Rightarrow> fetchAdminPublicKeys_loop env ps (adminKeys @ [key]) w1)"

definition fetchAdminPublicKeys :: "env \<Rightarrow> Team \<Rightarrow> world \<Rightarrow> (error + PgpKey list) \<times> world" where
  "fetchAdminPublicKeys env t w = fetchAdminPublicKeys_loop env (Admins t) [] w"

definition verifyBrandNewRoster ::
  "env \<Rightarrow> Team \<Rightarrow> string \<Rightarrow> string \<Rightarrow> world \<Rightarrow> error option \<times> world" where
  "verifyBrandNewRoster env t roster' signature' w =
     (case fetchAdminPublicKeys env t w of
        (Inl err, w1) \<Rightarrow> (Some err, w1)
      | (Inr adminKeys, w1) \<Rightarrow>
          (team_VerifyRoster env roster' signature' adminKeys,
           call (CalledVerifyRoster roster' signature' adminKeys) w1))"

definition fetchAndUpdateRoster :: "env \<Rightarrow> Team \<Rightarrow> PgpKey \<Rightarrow> world \<Rightarrow> (error + Team) \<times> world" where
  "fetchAndUpdateRoster env t unlockedKey w =
     (let w1 = call (CalledGetTeamRoster unlockedKey (UUID t)) w in
      case client_GetTeamRoster env w unlockedKey (UUID t) of
        Inl err \<Rightarrow> (Inl (Errorf (''error downloading team roster: '' @ Error err)), w1)
      | Inr (roster', signature') \<Rightarrow>
          if fst (Roster t) = roster' then (Inr t, w1)
          else
            (case fetchAdminPublicKeys env t w1 of
               (Inl err, w2) \<Rightarrow>
                 (Inl (Errorf (''error getting team admin public keys: '' @ Error err)), w2)
             | (Inr adminKeys, w2) \<Rightarrow>
                 (let w3 = call (CalledVerifyRoster roster' signature' adminKeys) w2 in
                  case team_VerifyRoster env roster' signature' adminKeys of
                    Some err \<Rightarrow>
                      (Inl (Errorf (''couldn't validate signature on updated roster: '' @ Error err)),
                       w3)
                  | None \<Rightarrow>
                      (case team_Directory env t of
                         Inl err \<Rightarrow> (Inl err, w3)
                       | Inr teamSubdir \<Rightarrow>
                           (case Save env teamSubdir roster' signature' w3 of
                              (Some err, w4) \<Rightarrow> (Inl err, w4)
                            | (None, w4) \<Rightarrow>
                                (case team_Load env roster' signature' of
                                   Inl err \<Rightarrow> (Inl err, w4)
                                 | Inr updatedTeam \<Rightarrow> (Inr updatedTeam, w4)))))))"

text \<open>
  \<^verbatim>\<open>fetchTeamKeys\<close>: the named result \<^verbatim>\<open>err\<close> is assigned anew for every person of the
  team, and returned after the loop.
\<close>

fun fetchTeamKeys_loop :: "env \<Rightarrow> Person list \<Rightarrow> error option \<Rightarrow> world \<Rightarrow> error option \<times> world" where
  "fetchTeamKeys_loop env [] err w = (err, w)"
| "fetchTeamKeys_loop env (person # people) err w =
     (case RunWithCheckboxes (Email person)
             (getAndImportKeyToGpg env (Person.Fingerprint person)) w of
        (err', w1) \<Rightarrow> fetchTeamKeys_loop env people err' w1)"

definition fetchTeamKeys :: "env \<Rightarrow> Team \<Rightarrow> world \<Rightarrow> error option \<times> world" where
  "fetchTeamKeys env t w =
     (case fetchTeamKeys_loop env (People t) None
             (call (Printed (Text (''Fetching keys for other members of '' @ Name t @ '':''))) w) of
        (err, w1) \<Rightarrow> (err, call (Printed (Text [])) w1))"

definition successfullyFetchedKeysHeadline :: string where
  "successfullyFetchedKeysHeadline = ''Successfully fetched keys and imported them into GnuPG''"

text \<open>
  \<^verbatim>\<open>doUpdateTeam\<close>, first half: unlock my key and update the roster. It yields
  \<^verbatim>\<open>returnError\<close> and the team \<^verbatim>\<open>myTeam\<close> points to afterwards.
\<close>

definition doUpdateTeam_roster ::
  "env \<Rightarrow> Team \<Rightarrow> Person \<Rightarrow> world \<Rightarrow> (error option \<times> Team) \<times> world" where
  "doUpdateTeam_roster env myTeam me w =
     (case loadPrivateKeyFromFingerprint env (Person.Fingerprint me) w of
        (Inl err, w1) \<Rightarrow>
          ((Some err, myTeam),
           call (Printed (FormatFailure ''Failed to unlock key to check for team updates''
                   (Some err))) w1)
      | (Inr unlockedKey, w1) \<Rightarrow>
          (case fetchAndUpdateRoster env myTeam unlockedKey w1 of
             (Inl err, w2) \<Rightarrow>
               ((Some err, myTeam),
                call (Printed (FormatWarning ''Failed to check team for updates'' (Some err))) w2)
           | (Inr updatedTeam, w2) \<Rightarrow> ((None, updatedTeam), w2)))"

definition doUpdateTeam :: "env \<Rightarrow> Team \<Rightarrow> Person \<Rightarrow> world \<Rightarrow> error option \<times> world" where
  "doUpdateTeam env myTeam me w =
     (case doUpdateTeam_roster env myTeam me (call (Printed (Header (Name myTeam))) w) of
        ((returnError, myTeam'), w1) \<Rightarrow>
          (case fetchTeamKeys env myTeam' w1 of
             (Some err, w2) \<Rightarrow>
               (Some err, call (Printed (FormatWarning ''Error fetching team keys'' (Some err))) w2)
           | (None, w2) \<Rightarrow>
               (returnError, call (Printed (FormatSuccess successfullyFetchedKeysHeadline)) w2)))"

text \<open>\<^verbatim>\<open>time.Duration(7*24)*time.Hour\<close>, in nanoseconds.\<close>

definition sevenDays :: int where
  "sevenDays = 7 * 24 * 3600000000000"

text \<open>
  The body of the loop of \<^verbatim>\<open>processRequestsToJoinTeam\<close> for one request. \<open>err\<close> is the
  function-level variable \<^verbatim>\<open>err\<close> (the result of listing the requests): the expired branch
  comes before the body declares an \<^verbatim>\<open>err\<close> of its own, so its \<^verbatim>\<open>returnError = err\<close>
  reads that one. \<open>returnError\<close> is the named result as the iteration finds it.
\<close>

definition processRequest ::
  "env \<Rightarrow> error option \<Rightarrow> RequestToJoinTeam \<Rightarrow> error option \<Rightarrow> world \<Rightarrow> error option \<times> world" where
  "processRequest env err request returnError w =
     (if time_Now env w - RequestedAt request > sevenDays then
        (let w1 = call (Printed (FormatWarning
                     (''Your request to join '' @ TeamName request @ '' has expired'') None)) w;
             w2 = snd (DeleteRequestToJoinTeam env (TeamUUID request)
                     (RequestToJoinTeam.Fingerprint request) w1)
         in (err, w2))
      else
        (case loadPrivateKeyFromFingerprint env (RequestToJoinTeam.Fingerprint request) w of
           (Inl err1, w1) \<Rightarrow>
             (Some err1, call (Printed (FormatFailure ''Failed to load requesting key'' (Some err1))) w1)
         | (Inr unlockedKey, w1) \<Rightarrow>
             (let w2 = call (CalledGetTeamRoster unlockedKey (TeamUUID request)) w1 in
              case client_GetTeamRoster env w1 unlockedKey (TeamUUID request) of
                Inl err1 \<Rightarrow>
                  (if err1 = ErrForbidden then
                     (returnError,
                      call (Printed (FormatInfo
                        (''Your request to join '' @ TeamName request @ '' hasn't been approved''))) w2)
                   else
                     (Some err1,
                      call (Printed (FormatFailure ''Failed to get team roster'' (Some err1))) w2))
              | Inr (roster', signature') \<Rightarrow>
                  (case team_Load env roster' signature' of
                     Inl err1 \<Rightarrow>
                       (Some err1, call (Printed (FormatFailure ''Failed to load team'' (Some err1))) w2)
                   | Inr t \<Rightarrow>
                       (case verifyBrandNewRoster env t roster' signature' w2 of
                          (Some err1, w3) \<Rightarrow>
                            (Some err1,
                             call (Printed (FormatFailure
                               ''Failed to verify team roster's cryptographic signature''
                               (Some err1))) w3)
                        | (None, w3) \<Rightarrow>
                            (case team_Directory env t of
                               Inl err1 \<Rightarrow>
                                 (Some err1,
                                  call (Printed (FormatFailure ''Failed to get team subdirectory''
                                    (Some err1))) w3)
                             | Inr teamSubdirectory \<Rightarrow>
                                 (case Save env teamSubdirectory roster' signature' w3 of
                                    (Some err1, w4) \<Rightarrow>
                                      (Some err1,
                                       call (Printed (FormatFailure ''Failed to save team roster''
                                         (Some err1))) w4)
                                  | (None, w4) \<Rightarrow>
                                      (case DeleteRequestToJoinTeam env (TeamUUID request)
                                              (RequestToJoinTeam.Fingerprint request)
                                              (call (Printed (FormatSuccess
                                                 (''Your request to join '' @ Name t
                                                    @ '' has been approved''))) w4) of
                                         (Some err1, w5) \<Rightarrow>
                                           (Some err1,
                                            call (Printed (FormatFailure
                                              ''Error deleting request to join team'' (Some err1))) w5)
                                       | (None, w5) \<Rightarrow> (returnError, w5)))))))))"

fun processRequests_loop ::
  "env \<Rightarrow> error option \<Rightarrow> RequestToJoinTeam list \<Rightarrow> error option \<Rightarrow> world
     \<Rightarrow> error option \<times> world" where
  "processRequests_loop env err [] returnError w = (returnError, w)"
| "processRequests_loop env err (request # rest) returnError w =
     (case processRequest env err request returnError w of
        (returnError', w1) \<Rightarrow> processRequests_loop env err rest returnError' w1)"

text \<open>
  \<^verbatim>\<open>processRequestsToJoinTeam\<close>: a failure to list the requests returns at once; the loop
  is entered with \<^verbatim>\<open>err\<close> and \<^verbatim>\<open>returnError\<close> both \<^verbatim>\<open>nil\<close>.
\<close>

definition processRequestsToJoinTeam :: "env \<Rightarrow> world \<Rightarrow> error option \<times> world" where
  "processRequestsToJoinTeam env w =
     (case RequestsToJoinTeams env w of
        (Inl err, w1) \<Rightarrow>
          (Some err,
           call (Printed (FormatFailure ''Failed to get requests to join teams'' (Some err))) w1)
      | (Inr requestsToJoinTeams, w1) \<Rightarrow>
          processRequests_loop env None requestsToJoinTeams None w1)"

text \<open>
  \<^verbatim>\<open>teamFetch\<close>: the run either ends with an exit code or panics
  (\<^verbatim>\<open>log.Panic\<close> when the memberships cannot be listed).
\<close>

datatype outcome = Panic error | exitCode int

fun teamFetch_loop :: "env \<Rightarrow> (Team \<times> Person) list \<Rightarrow> bool \<Rightarrow> world \<Rightarrow> bool \<times> world" where
  "teamFetch_loop env [] sawError w = (sawError, w)"
| "teamFetch_loop env (m # ms) sawError w =
     (case doUpdateTeam env (fst m) (snd m) w of
        (Some err, w1) \<Rightarrow> teamFetch_loop env ms True w1
      | (None, w1) \<Rightarrow> teamFetch_loop env ms sawError w1)"

definition teamFetch :: "env \<Rightarrow> world \<Rightarrow> outcome \<times> world" where
  "teamFetch env w =
     (case processRequestsToJoinTeam env w of
        (joinError, w1) \<Rightarrow>
          (let sawError = (joinError \<noteq> None); w2 = call CalledMemberships w1 in
           case user_Memberships env w1 of
             Inl err \<Rightarrow> (Panic err, w2)
           | Inr myMemberships \<Rightarrow>
               (case teamFetch_loop env myMemberships sawError w2 of
                  (sawError', w3) \<Rightarrow>
                    if sawError' then
                      (exitCode 1,
                       call (Printed (Failed ''Encountered errors while syncing.''))
                         (call (Printed (Text [])) w3))
                    else (exitCode 0, w3))))"

section \<open>Concrete teams, collaborators and states\<close>

definition alice :: Person where
  "alice = \<lparr>Email = ''alice@example.com'', Fingerprint = ''AAAA'', IsAdmin = True\<rparr>"

definition bob :: Person where
  "bob = \<lparr>Email = ''bob@example.com'', Fingerprint = ''BBBB'', IsAdmin = False\<rparr>"

text \<open>Three successive rosters of one team; the second is the trusted one.\<close>

definition acme_v1 :: Team where
  "acme_v1 = \<lparr>UUID = ''u1'', Name = ''Acme'', People = [alice],
     roster = ''roster v1'', signature = ''AAAA''\<rparr>"

definition acme :: Team where
  "acme = \<lparr>UUID = ''u1'', Name = ''Acme'', People = [alice, bob],
     roster = ''roster v2'', signature = ''AAAA''\<rparr>"

definition acme_v3 :: Team where
  "acme_v3 = \<lparr>UUID = ''u1'', Name = ''Acme'', People = [alice, bob],
     roster = ''roster v3'', signature = ''AAAA''\<rparr>"

text \<open>
  Collaborators that always succeed. A key is named by its fingerprint, a signature by the
  fingerprint of the key that made it, and verification accepts a signature made by one of
  the candidate keys. The remote roster is the third roster, signed by Alice. The clock
  stands at eight days.
\<close>

definition eightDays :: int where
  "eightDays = 8 * 24 * 3600000000000"

definition env0 :: env where
  "env0 = \<lparr>user_RequestsToJoinTeams = (\<lambda>w. None),
            user_Memberships = (\<lambda>w. Inr []),
            loadPgpKey = (\<lambda>w fp. Inr fp),
            getDecryptedPrivateKeyAndPassword = (\<lambda>w key. Inr key),
            client_GetTeamRoster = (\<lambda>w key u. Inr (''roster v3'', ''AAAA'')),
            client_GetPublicKeyByFingerprint = (\<lambda>w fp. Inr fp),
            team_VerifyRoster = (\<lambda>r s keys. if s \<in> set keys then None
                                   else Some (Errorf ''signature invalid'')),
            team_Directory = (\<lambda>t. Inr (''teams/'' @ UUID t)),
            team_Load = (\<lambda>r s. if r = ''roster v3'' then Inr acme_v3
                             else Inl (Errorf ''malformed roster'')),
            saver_Save = (\<lambda>w d r s. None),
            key_Armor = (\<lambda>key. Inr key),
            gpg_ImportArmoredKey = (\<lambda>w a. None),
            db_DeleteRequestToJoinTeam = (\<lambda>w u f. None),
            time_Now = (\<lambda>w. eightDays)\<rparr>"

text \<open>The state before a run: the second roster is the trusted one, no join request.\<close>

definition w0 :: world where
  "w0 = \<lparr>rosters = [''teams/u1'' \<mapsto> (''roster v2'', ''AAAA'')], requests = [], events = []\<rparr>"

text \<open>The remote roster is signed by a key that is no admin's.\<close>

definition env_mallory :: env where
  "env_mallory = env0\<lparr>client_GetTeamRoster := (\<lambda>w key u. Inr (''roster v3'', ''MMMM''))\<rparr>"

text \<open>The remote roster is the trusted one.\<close>

definition env_unchanged :: env where
  "env_unchanged = env0\<lparr>client_GetTeamRoster := (\<lambda>w key u. Inr (''roster v2'', ''AAAA''))\<rparr>"

text \<open>
  The state in which the first roster is the trusted one, and collaborators whose remote
  roster is the second.
\<close>

definition w_v1 :: world where
  "w_v1 = \<lparr>rosters = [''teams/u1'' \<mapsto> (''roster v1'', ''AAAA'')], requests = [], events = []\<rparr>"

definition env_v2 :: env where
  "env_v2 = env_unchanged\<lparr>
     team_Load := (\<lambda>r s. if r = ''roster v2'' then Inr acme
                      else Inl (Errorf ''malformed roster''))\<rparr>"

text \<open>
  Carol is an admin of the team \<open>initech\<close>, beside Alice. With \<open>env_keyring_alice\<close> the local
  keyring holds Alice's key only and the remote service has every key. With \<open>env_keys\<close> the
  remote service lacks Carol's key too, so it can be had from neither.
\<close>

definition carol :: Person where
  "carol = \<lparr>Email = ''carol@example.com'', Fingerprint = ''CCCC'', IsAdmin = True\<rparr>"

definition initech :: Team where
  "initech = \<lparr>UUID = ''u9'', Name = ''Initech'', People = [alice, bob, carol],
     roster = ''initech roster'', signature = ''AAAA''\<rparr>"

definition env_keyring_alice :: env where
  "env_keyring_alice = env0\<lparr>
     loadPgpKey := (\<lambda>w fp. if fp = ''AAAA'' then Inr fp else Inl (Errorf ''no such key''))\<rparr>"

definition env_keys :: env where
  "env_keys = env_keyring_alice\<lparr>
     client_GetPublicKeyByFingerprint :=
       (\<lambda>w fp. if fp = ''CCCC'' then Inl ErrPublicKeyNotFound else Inr fp)\<rparr>"

text \<open>
  Join requests: one made just now, one made eight days ago, one by a requester whose key
  cannot be loaded. The remote service answers a requester with \<^verbatim>\<open>ErrForbidden\<close>.
\<close>

definition request_new :: RequestToJoinTeam where
  "request_new = \<lparr>TeamUUID = ''u9'', TeamName = ''Initech'', Fingerprint = ''BBBB'',
     RequestedAt = eightDays\<rparr>"

definition request_old :: RequestToJoinTeam where
  "request_old = \<lparr>TeamUUID = ''u9'', TeamName = ''Initech'', Fingerprint = ''BBBB'',
     RequestedAt = 0\<rparr>"

definition request_nokey :: RequestToJoinTeam where
  "request_nokey = \<lparr>TeamUUID = ''u8'', TeamName = ''Globex'', Fingerprint = ''DDDD'',
     RequestedAt = eightDays\<rparr>"

definition env_forbidden :: env where
  "env_forbidden = env0\<lparr>
     client_GetTeamRoster := (\<lambda>w key u. Inl ErrForbidden),
     loadPgpKey := (\<lambda>w fp. if fp = ''DDDD'' then Inl (Errorf ''no such key'') else Inr fp)\<rparr>"

text \<open>
  One membership: Alice in the team \<open>acme\<close>, whose remote roster is the trusted one. The
  remote service does not have Alice's public key; it has Bob's.
\<close>

definition env_member_key_missing :: env where
  "env_member_key_missing = env_unchanged\<lparr>
     user_Memberships := (\<lambda>w. Inr [(acme, alice)]),
     client_GetPublicKeyByFingerprint :=
       (\<lambda>w fp. if fp = ''AAAA'' then Inl ErrPublicKeyNotFound else Inr fp)\<rparr>"

section \<open>Properties of the update validator\<close>

lemma ValidateUpdate_cases:
  "ValidateUpdate before after me =
     Some (if UUID before \<noteq> UUID after then Errorf ''can't change team UUID''
           else if Name before \<noteq> Name after then Errorf ''can't change team name''
           else Errorf ''not implemented'')"
  by (simp add: ValidateUpdate_def validateTeamUUID_def validateTeamNameCantChange_def
      validateIAmAdmin_def)

text \<open>
  C4. \<open>ValidateUpdate\<close> returns a non-nil error for every input: when the UUID and the
  name are unchanged the signer check is reached, and it answers "not implemented"
  whatever the teams and the signer are. No update passes validation.
\<close>

theorem ValidateUpdate_never_accepts:
  "ValidateUpdate before after me \<noteq> None
   \<and> validateIAmAdmin before after me = Some (Errorf ''not implemented'')"
  by (simp add: ValidateUpdate_cases validateIAmAdmin_def)

text \<open>
  C5. An update that changes the UUID or the name is rejected with the error of the first
  field that differs: the UUID's when the UUID differs (whatever the name is), the name's
  when only the name differs. The result is a single error, and the two errors differ from
  each other and from the stub's.
\<close>

theorem ValidateUpdate_immutable_fields:
  assumes "UUID before \<noteq> UUID after \<or> Name before \<noteq> Name after"
  shows "ValidateUpdate before after me =
           Some (if UUID before \<noteq> UUID after then Errorf ''can't change team UUID''
                 else Errorf ''can't change team name'')
         \<and> Errorf ''can't change team UUID'' \<noteq> Errorf ''can't change team name''
         \<and> Errorf ''can't change team UUID'' \<noteq> Errorf ''not implemented''
         \<and> Errorf ''can't change team name'' \<noteq> Errorf ''not implemented''"
  using assms by (auto simp add: ValidateUpdate_cases)

theorem ValidateUpdate_immutable_fields_witness:
  "ValidateUpdate acme (acme\<lparr>UUID := ''u2'', Name := ''Acme2''\<rparr>) None
     = Some (Errorf ''can't change team UUID'')
   \<and> ValidateUpdate acme (acme\<lparr>Name := ''Acme2''\<rparr>) (Some alice)
     = Some (Errorf ''can't change team name'')"
  using ValidateUpdate_immutable_fields [of acme "acme\<lparr>UUID := ''u2'', Name := ''Acme2''\<rparr>" None]
    ValidateUpdate_immutable_fields [of acme "acme\<lparr>Name := ''Acme2''\<rparr>" "Some alice"]
  by (simp add: acme_def)

text \<open>
  C9, as amended. An update after which no person has the admin flag is rejected, but not by
  a check of the admins: the answer is the UUID error when the UUID differs, else the name
  error when the name differs, else the "not implemented" of the signer check. It is the
  answer the same update gets with any other list of people and any other signer, so also
  with an admin left; the validator has no error of its own for a team without admins.
\<close>

theorem ValidateUpdate_no_admin_rejected:
  assumes "Admins after = []"
  shows "ValidateUpdate before after me =
           Some (if UUID before \<noteq> UUID after then Errorf ''can't change team UUID''
                 else if Name before \<noteq> Name after then Errorf ''can't change team name''
                 else Errorf ''not implemented'')
         \<and> ValidateUpdate before after me \<noteq> None
         \<and> ValidateUpdate before (after\<lparr>People := people\<rparr>) me' = ValidateUpdate before after me"
  by (simp add: ValidateUpdate_cases)

theorem ValidateUpdate_no_admin_rejected_witness:
  "Admins (acme\<lparr>People := [bob]\<rparr>) = []
   \<and> ValidateUpdate acme (acme\<lparr>People := [bob]\<rparr>) (Some alice) = Some (Errorf ''not implemented'')
   \<and> ValidateUpdate acme (acme\<lparr>People := [alice, bob]\<rparr>) None
       = ValidateUpdate acme (acme\<lparr>People := [bob]\<rparr>) (Some alice)"
proof -
  have none: "Admins (acme\<lparr>People := [bob]\<rparr>) = []"
    by (simp add: Admins_def bob_def)
  note r = ValidateUpdate_no_admin_rejected [OF none, of acme "Some alice" "[alice, bob]" None]
  from r [THEN conjunct1]
  have a: "ValidateUpdate acme (acme\<lparr>People := [bob]\<rparr>) (Some alice)
             = Some (Errorf ''not implemented'')"
    by simp
  from r [THEN conjunct2, THEN conjunct2]
  have b: "ValidateUpdate acme (acme\<lparr>People := [alice, bob]\<rparr>) None
             = ValidateUpdate acme (acme\<lparr>People := [bob]\<rparr>) (Some alice)"
    by simp
  from none a b show ?thesis by (intro conjI)
qed

text \<open>
  C9, as stated, fails. The trusted team has the admin Alice; the update leaves only Bob,
  who is no admin, and changes neither UUID nor name. The validator answers with the stub's
  "not implemented", which is also its answer to the third roster, where Alice is still an
  admin: the error says nothing about admins.
\<close>

theorem ValidateUpdate_no_admin_counterexample:
  "Admins (acme\<lparr>People := [bob]\<rparr>) = []
   \<and> UUID (acme\<lparr>People := [bob]\<rparr>) = UUID acme
   \<and> Name (acme\<lparr>People := [bob]\<rparr>) = Name acme
   \<and> ValidateUpdate acme (acme\<lparr>People := [bob]\<rparr>) (Some alice) = Some (Errorf ''not implemented'')
   \<and> Admins acme_v3 = [alice]
   \<and> ValidateUpdate acme acme_v3 (Some alice) = Some (Errorf ''not implemented'')"
  by (simp add: ValidateUpdate_cases Admins_def acme_def acme_v3_def alice_def bob_def)

text \<open>
  C10, as amended. The validator is given the trusted team, the proposed team and the
  signer, and no record of earlier rosters. Every proposed roster, one that repeats a
  superseded roster included, is rejected: with the UUID error, the name error or the
  "not implemented" of the signer check. The answer does not depend on the text of the
  proposed roster or on its signature; there is no error of its own for a replayed roster.
\<close>

theorem ValidateUpdate_replay_rejected:
  "ValidateUpdate before after me =
     Some (if UUID before \<noteq> UUID after then Errorf ''can't change team UUID''
           else if Name before \<noteq> Name after then Errorf ''can't change team name''
           else Errorf ''not implemented'')
   \<and> ValidateUpdate before after me \<noteq> None
   \<and> ValidateUpdate before (after\<lparr>roster := roster', signature := signature'\<rparr>) me
       = ValidateUpdate before after me"
  by (simp add: ValidateUpdate_cases)

text \<open>
  C10, as stated, fails. The first roster was the trusted one and a verified update put the
  second in its place, so the first is seen and superseded. Proposing the first again, with
  Alice's valid signature, is answered with the stub's "not implemented", as the new third
  roster is: the answer is no error about a replay.
\<close>

theorem ValidateUpdate_replay_counterexample:
  "rosters w_v1 ''teams/u1'' = Some (Roster acme_v1)
   \<and> fst (fetchAndUpdateRoster env_v2 acme_v1 ''AAAA'' w_v1) = Inr acme
   \<and> rosters (snd (fetchAndUpdateRoster env_v2 acme_v1 ''AAAA'' w_v1)) ''teams/u1''
       = Some (Roster acme)
   \<and> Roster acme \<noteq> Roster acme_v1
   \<and> team_VerifyRoster env_v2 (roster acme_v1) (signature acme_v1) [''AAAA''] = None
   \<and> ValidateUpdate acme acme_v1 (Some alice) = Some (Errorf ''not implemented'')
   \<and> roster acme_v3 \<noteq> roster acme_v1 \<and> roster acme_v3 \<noteq> roster acme
   \<and> ValidateUpdate acme acme_v3 (Some alice) = Some (Errorf ''not implemented'')"
proof -
  have run: "fetchAndUpdateRoster env_v2 acme_v1 ''AAAA'' w_v1 =
     (Inr acme,
      \<lparr>rosters = [''teams/u1'' \<mapsto> (''roster v2'', ''AAAA'')], requests = [],
        events = [CalledGetTeamRoster ''AAAA'' ''u1'', CalledLoadPgpKey ''AAAA'',
                  CalledVerifyRoster ''roster v2'' ''AAAA'' [''AAAA''],
                  CalledSave ''teams/u1'' ''roster v2'' ''AAAA'']\<rparr>)"
    by (simp add: fetchAndUpdateRoster_def env_v2_def env_unchanged_def env0_def acme_v1_def
        w_v1_def Let_def fetchAdminPublicKeys_def Admins_def alice_def discoverPublicKey_def
        call_def Roster_def Save_def)
  have store: "rosters w_v1 ''teams/u1'' = Some (Roster acme_v1)"
    "Roster acme \<noteq> Roster acme_v1"
    "team_VerifyRoster env_v2 (roster acme_v1) (signature acme_v1) [''AAAA''] = None"
    by (simp_all add: w_v1_def Roster_def acme_def acme_v1_def env_v2_def env_unchanged_def
        env0_def)
  have stored: "rosters (snd (fetchAndUpdateRoster env_v2 acme_v1 ''AAAA'' w_v1)) ''teams/u1''
       = Some (Roster acme)"
    by (simp add: run Roster_def acme_def)
  have answers: "ValidateUpdate acme acme_v1 (Some alice) = Some (Errorf ''not implemented'')"
    "roster acme_v3 \<noteq> roster acme_v1" "roster acme_v3 \<noteq> roster acme"
    "ValidateUpdate acme acme_v3 (Some alice) = Some (Errorf ''not implemented'')"
    by (simp_all add: ValidateUpdate_cases acme_def acme_v1_def acme_v3_def)
  from run have returned: "fst (fetchAndUpdateRoster env_v2 acme_v1 ''AAAA'' w_v1) = Inr acme"
    by simp
  from store returned stored answers show ?thesis by (intro conjI)
qed

section \<open>How the building blocks change the state\<close>

lemma call_simps [simp]:
  "rosters (call ev w) = rosters w"
  "requests (call ev w) = requests w"
  "events (call ev w) = events w @ [ev]"
  by (simp_all add: call_def)

lemma discoverPublicKey_frame:
  assumes "discoverPublicKey env fp w = (r, w')"
  shows "rosters w' = rosters w \<and> requests w' = requests w \<and> saves w' = saves w"
  using assms
  by (auto simp add: discoverPublicKey_def Let_def saves_def split: sum.splits)

lemma fetchAdminPublicKeys_loop_frame:
  "fetchAdminPublicKeys_loop env ps ks w = (r, w') \<Longrightarrow>
     rosters w' = rosters w \<and> requests w' = requests w \<and> saves w' = saves w"
proof (induction ps arbitrary: ks w)
  case Nil
  then show ?case by simp
next
  case (Cons p ps)
  obtain r1 w1 where d: "discoverPublicKey env (Person.Fingerprint p) w = (r1, w1)"
    by (cases "discoverPublicKey env (Person.Fingerprint p) w")
  note f = discoverPublicKey_frame [OF d]
  show ?case
  proof (cases r1)
    case (Inl e)
    with Cons.prems d f show ?thesis by simp
  next
    case (Inr key)
    with Cons.prems d have "fetchAdminPublicKeys_loop env ps (ks @ [key]) w1 = (r, w')"
      by simp
    from Cons.IH [OF this] f show ?thesis by simp
  qed
qed

lemma fetchAdminPublicKeys_frame:
  "fetchAdminPublicKeys env t w = (r, w') \<Longrightarrow>
     rosters w' = rosters w \<and> requests w' = requests w \<and> saves w' = saves w"
  unfolding fetchAdminPublicKeys_def by (rule fetchAdminPublicKeys_loop_frame)

lemma loadPrivateKeyFromFingerprint_frame:
  "loadPrivateKeyFromFingerprint env fp w = (r, w') \<Longrightarrow>
     rosters w' = rosters w \<and> requests w' = requests w \<and> saves w' = saves w"
  by (auto simp add: loadPrivateKeyFromFingerprint_def Let_def saves_def split: sum.splits)

lemma fetchAndUpdateRoster_verify_fails:
  assumes fetched: "client_GetTeamRoster env w unlockedKey (UUID t) = Inr (roster', signature')"
    and changed: "fst (Roster t) \<noteq> roster'"
    and resolved: "fetchAdminPublicKeys env t (call (CalledGetTeamRoster unlockedKey (UUID t)) w)
                     = (Inr adminKeys, w2)"
    and invalid: "team_VerifyRoster env roster' signature' adminKeys = Some verr"
  shows "fetchAndUpdateRoster env t unlockedKey w =
           (Inl (Errorf (''couldn't validate signature on updated roster: '' @ Error verr)),
            call (CalledVerifyRoster roster' signature' adminKeys) w2)
         \<and> rosters (snd (fetchAndUpdateRoster env t unlockedKey w)) = rosters w
         \<and> saves (snd (fetchAndUpdateRoster env t unlockedKey w)) = saves w"
proof -
  have eq: "fetchAndUpdateRoster env t unlockedKey w =
           (Inl (Errorf (''couldn't validate signature on updated roster: '' @ Error verr)),
            call (CalledVerifyRoster roster' signature' adminKeys) w2)"
    using assms by (simp add: fetchAndUpdateRoster_def Let_def)
  from fetchAdminPublicKeys_frame [OF resolved]
  have "rosters w2 = rosters w" "saves w2 = saves w" by (simp_all add: saves_def)
  with eq show ?thesis by (simp add: saves_def)
qed

lemma fetchAndUpdateRoster_write_verified:
  assumes run: "fetchAndUpdateRoster env t unlockedKey w = (result, w')"
    and written: "rosters w' \<noteq> rosters w \<or> saves w' \<noteq> saves w"
  shows "\<exists>roster' signature' adminKeys w2 teamSubdir.
           client_GetTeamRoster env w unlockedKey (UUID t) = Inr (roster', signature')
         \<and> fetchAdminPublicKeys env t (call (CalledGetTeamRoster unlockedKey (UUID t)) w)
              = (Inr adminKeys, w2)
         \<and> team_VerifyRoster env roster' signature' adminKeys = None
         \<and> events w' = events w2 @ [CalledVerifyRoster roster' signature' adminKeys,
                                       CalledSave teamSubdir roster' signature']"
proof (cases "client_GetTeamRoster env w unlockedKey (UUID t)")
  case (Inl e)
  with run written show ?thesis
    by (auto simp add: fetchAndUpdateRoster_def Let_def saves_def)
next
  case (Inr rs)
  obtain roster' signature' where rs: "rs = (roster', signature')" by (cases rs)
  show ?thesis
  proof (cases "fst (Roster t) = roster'")
    case True
    with run written Inr rs show ?thesis
      by (auto simp add: fetchAndUpdateRoster_def Let_def saves_def)
  next
    case False
    obtain ra w2 where
      fa: "fetchAdminPublicKeys env t (call (CalledGetTeamRoster unlockedKey (UUID t)) w) = (ra, w2)"
      by (cases "fetchAdminPublicKeys env t (call (CalledGetTeamRoster unlockedKey (UUID t)) w)")
    from fetchAdminPublicKeys_frame [OF fa]
    have fr: "rosters w2 = rosters w" "saves w2 = saves w" by (simp_all add: saves_def)
    show ?thesis
    proof (cases ra)
      case (Inl e)
      with run written Inr rs False fa fr show ?thesis
        by (auto simp add: fetchAndUpdateRoster_def Let_def)
    next
      case (Inr adminKeys)
      with run written \<open>client_GetTeamRoster env w unlockedKey (UUID t) = Inr rs\<close> rs False fa fr
      show ?thesis
        by (auto simp add: fetchAndUpdateRoster_def Let_def Save_def saves_def
            split: option.splits sum.splits)
    qed
  qed
qed

lemma discoverPublicKey_unresolved:
  assumes "isl (loadPgpKey env w fp)"
    and "isl (client_GetPublicKeyByFingerprint env (call (CalledLoadPgpKey fp) w) fp)"
  shows "isl (fst (discoverPublicKey env fp w))"
  using assms by (auto simp add: discoverPublicKey_def Let_def isl_def)

lemma fetchAdminPublicKeys_loop_fails:
  assumes "p \<in> set ps"
    and "\<forall>w'. isl (loadPgpKey env w' (Person.Fingerprint p))
             \<and> isl (client_GetPublicKeyByFingerprint env w' (Person.Fingerprint p))"
  shows "isl (fst (fetchAdminPublicKeys_loop env ps ks w))"
  using assms(1)
proof (induction ps arbitrary: ks w)
  case Nil
  then show ?case by simp
next
  case (Cons q qs)
  obtain r1 w1 where d: "discoverPublicKey env (Person.Fingerprint q) w = (r1, w1)"
    by (cases "discoverPublicKey env (Person.Fingerprint q) w")
  show ?case
  proof (cases r1)
    case (Inl e)
    with d show ?thesis by simp
  next
    case (Inr key)
    have "q \<noteq> p"
    proof
      assume "q = p"
      from assms(2) have "isl (fst (discoverPublicKey env (Person.Fingerprint p) w))"
        by (intro discoverPublicKey_unresolved) simp_all
      with \<open>q = p\<close> d Inr show False by simp
    qed
    with Cons.prems have "p \<in> set qs" by auto
    from Cons.IH [OF this] d Inr show ?thesis by simp
  qed
qed

lemma fetchAdminPublicKeys_loop_length:
  "fetchAdminPublicKeys_loop env ps ks w = (Inr keys, w') \<Longrightarrow>
     length keys = length ks + length ps"
proof (induction ps arbitrary: ks w)
  case Nil
  then show ?case by simp
next
  case (Cons q qs)
  then show ?case
    by (auto split: prod.splits sum.splits)
qed

lemma fetchAdminPublicKeys_loop_keys:
  "fetchAdminPublicKeys_loop env ps ks w = (Inr keys, w') \<Longrightarrow>
     \<exists>new. keys = ks @ new
       \<and> list_all2 (\<lambda>admin k. \<exists>wi.
             fst (discoverPublicKey env (Person.Fingerprint admin) wi) = Inr k) ps new"
proof (induction ps arbitrary: ks w)
  case Nil
  then show ?case by simp
next
  case (Cons q qs)
  obtain r1 w1 where d: "discoverPublicKey env (Person.Fingerprint q) w = (r1, w1)"
    by (cases "discoverPublicKey env (Person.Fingerprint q) w")
  show ?case
  proof (cases r1)
    case (Inl e)
    with Cons.prems d show ?thesis by simp
  next
    case (Inr key)
    with Cons.prems d have "fetchAdminPublicKeys_loop env qs (ks @ [key]) w1 = (Inr keys, w')"
      by simp
    from Cons.IH [OF this] obtain new where
      new: "keys = (ks @ [key]) @ new"
        "list_all2 (\<lambda>admin k. \<exists>wi.
             fst (discoverPublicKey env (Person.Fingerprint admin) wi) = Inr k) qs new"
      by blast
    from d Inr have "fst (discoverPublicKey env (Person.Fingerprint q) w) = Inr key"
      by simp
    then have "\<exists>wi. fst (discoverPublicKey env (Person.Fingerprint q) wi) = Inr key" ..
    with new have "keys = ks @ (key # new)
       \<and> list_all2 (\<lambda>admin k. \<exists>wi.
             fst (discoverPublicKey env (Person.Fingerprint admin) wi) = Inr k) (q # qs) (key # new)"
      by simp
    then show ?thesis ..
  qed
qed

lemma fetchAdminPublicKeys_loop_error:
  "fetchAdminPublicKeys_loop env ps ks w = (Inl err, w') \<Longrightarrow>
     \<exists>admin\<in>set ps. \<exists>wi. fst (discoverPublicKey env (Person.Fingerprint admin) wi) = Inl err"
proof (induction ps arbitrary: ks w)
  case Nil
  then show ?case by simp
next
  case (Cons q qs)
  obtain r1 w1 where d: "discoverPublicKey env (Person.Fingerprint q) w = (r1, w1)"
    by (cases "discoverPublicKey env (Person.Fingerprint q) w")
  show ?case
  proof (cases r1)
    case (Inl e)
    with Cons.prems d have "fst (discoverPublicKey env (Person.Fingerprint q) w) = Inl err"
      by simp
    then have "\<exists>wi. fst (discoverPublicKey env (Person.Fingerprint q) wi) = Inl err" ..
    then show ?thesis by simp
  next
    case (Inr key)
    with Cons.prems d have "fetchAdminPublicKeys_loop env qs (ks @ [key]) w1 = (Inl err, w')"
      by simp
    from Cons.IH [OF this] show ?thesis by simp
  qed
qed

lemma fetchAdminPublicKeys_loop_exact:
  assumes "\<forall>admin\<in>set ps. \<forall>wi. fst (discoverPublicKey env (Person.Fingerprint admin) wi) = r admin"
  shows "fst (fetchAdminPublicKeys_loop env ps ks w) =
           (case find (\<lambda>admin. isl (r admin)) ps of
              None \<Rightarrow> Inr (ks @ map (\<lambda>admin. projr (r admin)) ps)
            | Some admin \<Rightarrow> Inl (projl (r admin)))"
  using assms
proof (induction ps arbitrary: ks w)
  case Nil
  then show ?case by simp
next
  case (Cons q qs)
  obtain r1 w1 where d: "discoverPublicKey env (Person.Fingerprint q) w = (r1, w1)"
    by (cases "discoverPublicKey env (Person.Fingerprint q) w")
  from Cons.prems have "fst (discoverPublicKey env (Person.Fingerprint q) w) = r q"
    by simp
  with d have rq: "r q = r1" by simp
  from Cons.prems
  have rest: "\<forall>admin\<in>set qs. \<forall>wi.
                fst (discoverPublicKey env (Person.Fingerprint admin) wi) = r admin"
    by simp
  show ?case
  proof (cases r1)
    case (Inl e)
    with d rq show ?thesis by simp
  next
    case (Inr key)
    with d rq Cons.IH [OF rest, of "ks @ [key]" w1] show ?thesis
      by (simp split: option.splits)
  qed
qed

section \<open>Properties of the synchronisation run\<close>

text \<open>
  C1. In \<open>fetchAndUpdateRoster\<close> the trusted roster store is written only after the fetched
  roster has been verified against the admin keys resolved from the team as trusted so far.
  First part: when a fetched, changed roster fails verification against the resolved keys,
  the function returns the verification error, the store is as before the call and no save
  was attempted. Second part: when the call changed the store or attempted a save, then a
  roster was fetched, the admin keys were resolved, verification of that roster against
  those keys succeeded, and the save of that roster follows the verification as the last
  event.
\<close>

theorem fetchAndUpdateRoster_store_guard:
  "(client_GetTeamRoster env w unlockedKey (UUID t) = Inr (roster', signature')
      \<and> fst (Roster t) \<noteq> roster'
      \<and> fetchAdminPublicKeys env t (call (CalledGetTeamRoster unlockedKey (UUID t)) w)
           = (Inr adminKeys, w2)
      \<and> team_VerifyRoster env roster' signature' adminKeys = Some verr
    \<longrightarrow> fetchAndUpdateRoster env t unlockedKey w =
           (Inl (Errorf (''couldn't validate signature on updated roster: '' @ Error verr)),
            call (CalledVerifyRoster roster' signature' adminKeys) w2)
        \<and> rosters (snd (fetchAndUpdateRoster env t unlockedKey w)) = rosters w
        \<and> saves (snd (fetchAndUpdateRoster env t unlockedKey w)) = saves w)
   \<and> (fetchAndUpdateRoster env t unlockedKey w = (result, w')
      \<and> (rosters w' \<noteq> rosters w \<or> saves w' \<noteq> saves w)
    \<longrightarrow> (\<exists>fetchedRoster fetchedSignature keys w3 teamSubdir.
           client_GetTeamRoster env w unlockedKey (UUID t) = Inr (fetchedRoster, fetchedSignature)
         \<and> fetchAdminPublicKeys env t (call (CalledGetTeamRoster unlockedKey (UUID t)) w)
              = (Inr keys, w3)
         \<and> team_VerifyRoster env fetchedRoster fetchedSignature keys = None
         \<and> events w' = events w3 @ [CalledVerifyRoster fetchedRoster fetchedSignature keys,
                                       CalledSave teamSubdir fetchedRoster fetchedSignature]))"
proof (intro conjI impI)
  assume a: "client_GetTeamRoster env w unlockedKey (UUID t) = Inr (roster', signature')
      \<and> fst (Roster t) \<noteq> roster'
      \<and> fetchAdminPublicKeys env t (call (CalledGetTeamRoster unlockedKey (UUID t)) w)
           = (Inr adminKeys, w2)
      \<and> team_VerifyRoster env roster' signature' adminKeys = Some verr"
  then have fetched: "client_GetTeamRoster env w unlockedKey (UUID t) = Inr (roster', signature')"
    and changed: "fst (Roster t) \<noteq> roster'"
    and resolved: "fetchAdminPublicKeys env t (call (CalledGetTeamRoster unlockedKey (UUID t)) w)
           = (Inr adminKeys, w2)"
    and invalid: "team_VerifyRoster env roster' signature' adminKeys = Some verr"
    by simp_all
  note r = fetchAndUpdateRoster_verify_fails [OF fetched changed resolved invalid]
  from r show "fetchAndUpdateRoster env t unlockedKey w =
           (Inl (Errorf (''couldn't validate signature on updated roster: '' @ Error verr)),
            call (CalledVerifyRoster roster' signature' adminKeys) w2)" by blast
  from r show "rosters (snd (fetchAndUpdateRoster env t unlockedKey w)) = rosters w" by blast
  from r show "saves (snd (fetchAndUpdateRoster env t unlockedKey w)) = saves w" by blast
next
  assume b: "fetchAndUpdateRoster env t unlockedKey w = (result, w')
      \<and> (rosters w' \<noteq> rosters w \<or> saves w' \<noteq> saves w)"
  then have run: "fetchAndUpdateRoster env t unlockedKey w = (result, w')"
    and written: "rosters w' \<noteq> rosters w \<or> saves w' \<noteq> saves w" by simp_all
  from fetchAndUpdateRoster_write_verified [OF run written]
  show "\<exists>fetchedRoster fetchedSignature keys w3 teamSubdir.
           client_GetTeamRoster env w unlockedKey (UUID t) = Inr (fetchedRoster, fetchedSignature)
         \<and> fetchAdminPublicKeys env t (call (CalledGetTeamRoster unlockedKey (UUID t)) w)
              = (Inr keys, w3)
         \<and> team_VerifyRoster env fetchedRoster fetchedSignature keys = None
         \<and> events w' = events w3 @ [CalledVerifyRoster fetchedRoster fetchedSignature keys,
                                       CalledSave teamSubdir fetchedRoster fetchedSignature]" .
qed

lemma fetchAndUpdateRoster_env0:
  "fetchAndUpdateRoster env0 acme ''AAAA'' w0 =
     (Inr acme_v3,
      \<lparr>rosters = [''teams/u1'' \<mapsto> (''roster v3'', ''AAAA'')], requests = [],
        events = [CalledGetTeamRoster ''AAAA'' ''u1'', CalledLoadPgpKey ''AAAA'',
                  CalledVerifyRoster ''roster v3'' ''AAAA'' [''AAAA''],
                  CalledSave ''teams/u1'' ''roster v3'' ''AAAA'']\<rparr>)"
  by (simp add: fetchAndUpdateRoster_def env0_def acme_def w0_def Let_def
      fetchAdminPublicKeys_def Admins_def alice_def bob_def discoverPublicKey_def call_def
      Roster_def Save_def)

theorem fetchAndUpdateRoster_store_guard_witness:
  "fst (fetchAndUpdateRoster env_mallory acme ''AAAA'' w0)
     = Inl (Errorf ''couldn't validate signature on updated roster: signature invalid'')
   \<and> rosters (snd (fetchAndUpdateRoster env_mallory acme ''AAAA'' w0)) = rosters w0
   \<and> saves (snd (fetchAndUpdateRoster env_mallory acme ''AAAA'' w0)) = saves w0
   \<and> rosters (snd (fetchAndUpdateRoster env0 acme ''AAAA'' w0)) ''teams/u1''
       = Some (''roster v3'', ''AAAA'')
   \<and> (\<exists>fetchedRoster fetchedSignature keys.
         client_GetTeamRoster env0 w0 ''AAAA'' (UUID acme) = Inr (fetchedRoster, fetchedSignature)
         \<and> team_VerifyRoster env0 fetchedRoster fetchedSignature keys = None)"
proof -
  let ?w1 = "call (CalledGetTeamRoster ''AAAA'' (UUID acme)) w0"
  let ?w2 = "w0\<lparr>events := [CalledGetTeamRoster ''AAAA'' ''u1'', CalledLoadPgpKey ''AAAA'']\<rparr>"
  have fetched: "client_GetTeamRoster env_mallory w0 ''AAAA'' (UUID acme) = Inr (''roster v3'', ''MMMM'')"
    by (simp add: env_mallory_def env0_def)
  have changed: "fst (Roster acme) \<noteq> ''roster v3''"
    by (simp add: Roster_def acme_def)
  have resolved: "fetchAdminPublicKeys env_mallory acme ?w1 = (Inr [''AAAA''], ?w2)"
    by (simp add: env_mallory_def env0_def acme_def w0_def Let_def
        fetchAdminPublicKeys_def Admins_def alice_def bob_def discoverPublicKey_def call_def)
  have invalid: "team_VerifyRoster env_mallory ''roster v3'' ''MMMM'' [''AAAA'']
                   = Some (Errorf ''signature invalid'')"
    by (simp add: env_mallory_def env0_def)
  note failing = fetchAndUpdateRoster_store_guard
    [of env_mallory w0 "''AAAA''" acme "''roster v3''" "''MMMM''" "[''AAAA'']" ?w2
       "Errorf ''signature invalid''", THEN conjunct1, THEN mp,
     OF conjI [OF fetched conjI [OF changed conjI [OF resolved invalid]]]]
  from failing [THEN conjunct1]
  have rejected: "fst (fetchAndUpdateRoster env_mallory acme ''AAAA'' w0)
       = Inl (Errorf ''couldn't validate signature on updated roster: signature invalid'')"
    by simp
  from failing [THEN conjunct2]
  have kept: "rosters (snd (fetchAndUpdateRoster env_mallory acme ''AAAA'' w0)) = rosters w0
     \<and> saves (snd (fetchAndUpdateRoster env_mallory acme ''AAAA'' w0)) = saves w0" .
  let ?w' = "\<lparr>rosters = [''teams/u1'' \<mapsto> (''roster v3'', ''AAAA'')], requests = [],
        events = [CalledGetTeamRoster ''AAAA'' ''u1'', CalledLoadPgpKey ''AAAA'',
                  CalledVerifyRoster ''roster v3'' ''AAAA'' [''AAAA''],
                  CalledSave ''teams/u1'' ''roster v3'' ''AAAA'']\<rparr>"
  have run: "fetchAndUpdateRoster env0 acme ''AAAA'' w0 = (Inr acme_v3, ?w')"
    by (rule fetchAndUpdateRoster_env0)
  have written: "rosters ?w' \<noteq> rosters w0 \<or> saves ?w' \<noteq> saves w0"
    by (simp add: saves_def w0_def)
  note saved = fetchAndUpdateRoster_store_guard
    [of env0 w0 "''AAAA''" acme _ _ _ _ _ "Inr acme_v3" ?w', THEN conjunct2, THEN mp,
     OF conjI [OF run written]]
  from saved obtain fetchedRoster fetchedSignature keys where
    "client_GetTeamRoster env0 w0 ''AAAA'' (UUID acme) = Inr (fetchedRoster, fetchedSignature)"
    "team_VerifyRoster env0 fetchedRoster fetchedSignature keys = None"
    by (elim exE conjE)
  then have second: "\<exists>fetchedRoster fetchedSignature keys.
         client_GetTeamRoster env0 w0 ''AAAA'' (UUID acme) = Inr (fetchedRoster, fetchedSignature)
         \<and> team_VerifyRoster env0 fetchedRoster fetchedSignature keys = None"
    by (intro exI conjI)
  have stored: "rosters (snd (fetchAndUpdateRoster env0 acme ''AAAA'' w0)) ''teams/u1''
       = Some (''roster v3'', ''AAAA'')"
    by (simp add: run)
  from rejected kept stored second show ?thesis by (intro conjI) (erule conjunct1 conjunct2 | assumption)+
qed

text \<open>
  C6. When the roster fetched from the remote service equals the roster of the trusted
  team, \<open>fetchAndUpdateRoster\<close> returns that team without error, and the fetch is the only
  thing it did: the state after the call is the state before it with the one event of the
  fetch added. No key was looked up, nothing was verified, nothing was saved, the store is
  untouched.
\<close>

theorem fetchAndUpdateRoster_unchanged_roster:
  assumes "client_GetTeamRoster env w unlockedKey (UUID t) = Inr (roster', signature')"
    and "fst (Roster t) = roster'"
  shows "fetchAndUpdateRoster env t unlockedKey w
           = (Inr t, call (CalledGetTeamRoster unlockedKey (UUID t)) w)
         \<and> rosters (snd (fetchAndUpdateRoster env t unlockedKey w)) = rosters w
         \<and> events (snd (fetchAndUpdateRoster env t unlockedKey w))
             = events w @ [CalledGetTeamRoster unlockedKey (UUID t)]"
  using assms by (simp add: fetchAndUpdateRoster_def Let_def)

theorem fetchAndUpdateRoster_unchanged_roster_witness:
  "fetchAndUpdateRoster env_unchanged acme ''AAAA'' w0
     = (Inr acme, w0\<lparr>events := [CalledGetTeamRoster ''AAAA'' ''u1'']\<rparr>)"
proof -
  have fetched: "client_GetTeamRoster env_unchanged w0 ''AAAA'' (UUID acme)
                   = Inr (''roster v2'', ''AAAA'')"
    by (simp add: env_unchanged_def env0_def)
  have same: "fst (Roster acme) = ''roster v2''"
    by (simp add: Roster_def acme_def)
  from fetchAndUpdateRoster_unchanged_roster [OF fetched same, THEN conjunct1]
  show ?thesis by (simp add: call_def w0_def acme_def)
qed

text \<open>
  C7. Resolving an admin's key asks the local keyring first. When the keyring has the key,
  that key is the answer and the remote service is not asked. When the keyring fails, the
  remote service is asked next, by the same fingerprint, and its key is the answer; when it
  fails too, the answer is an error. Resolving the keys of a team is all or nothing. If some
  admin's key can be had neither from the keyring nor from the remote service, the result
  is an error. A result that is a list of keys has one key for every admin, in the order
  of the admins, each of them a key that resolving that admin's fingerprint gave; a result
  that is an error is an error that resolving some admin's fingerprint gave. And where the
  outcome of resolving an admin's fingerprint is the same in every state, \<open>r admin\<close>, the
  result is exactly: the error of the first admin whose key cannot be resolved, and with
  no such admin the list of all the admins' keys.
\<close>

theorem admin_key_resolution:
  "(loadPgpKey env w fp = Inr key
      \<longrightarrow> discoverPublicKey env fp w = (Inr key, call (CalledLoadPgpKey fp) w))
   \<and> (loadPgpKey env w fp = Inl e
      \<longrightarrow> discoverPublicKey env fp w =
           (case client_GetPublicKeyByFingerprint env (call (CalledLoadPgpKey fp) w) fp of
              Inr remoteKey \<Rightarrow> Inr remoteKey
            | Inl e' \<Rightarrow>
                Inl (Errorf (''failed multiple attempts to find get public key for '' @ fp)),
            call (CalledGetPublicKeyByFingerprint fp) (call (CalledLoadPgpKey fp) w)))
   \<and> (p \<in> set (Admins t)
        \<and> (\<forall>w'. isl (loadPgpKey env w' (Person.Fingerprint p))
                \<and> isl (client_GetPublicKeyByFingerprint env w' (Person.Fingerprint p)))
      \<longrightarrow> isl (fst (fetchAdminPublicKeys env t w)))
   \<and> (fetchAdminPublicKeys env t w = (Inr adminKeys, w')
      \<longrightarrow> length adminKeys = length (Admins t)
        \<and> list_all2 (\<lambda>admin k. \<exists>wi.
              fst (discoverPublicKey env (Person.Fingerprint admin) wi) = Inr k)
            (Admins t) adminKeys)
   \<and> (fetchAdminPublicKeys env t w = (Inl err, w')
      \<longrightarrow> (\<exists>admin\<in>set (Admins t). \<exists>wi.
              fst (discoverPublicKey env (Person.Fingerprint admin) wi) = Inl err))
   \<and> ((\<forall>admin\<in>set (Admins t). \<forall>wi.
          fst (discoverPublicKey env (Person.Fingerprint admin) wi) = r admin)
      \<longrightarrow> fst (fetchAdminPublicKeys env t w) =
           (case find (\<lambda>admin. isl (r admin)) (Admins t) of
              None \<Rightarrow> Inr (map (\<lambda>admin. projr (r admin)) (Admins t))
            | Some admin \<Rightarrow> Inl (projl (r admin))))"
proof (intro conjI impI)
  assume "loadPgpKey env w fp = Inr key"
  then show "discoverPublicKey env fp w = (Inr key, call (CalledLoadPgpKey fp) w)"
    by (simp add: discoverPublicKey_def Let_def)
next
  assume "loadPgpKey env w fp = Inl e"
  then show "discoverPublicKey env fp w =
           (case client_GetPublicKeyByFingerprint env (call (CalledLoadPgpKey fp) w) fp of
              Inr remoteKey \<Rightarrow> Inr remoteKey
            | Inl e' \<Rightarrow>
                Inl (Errorf (''failed multiple attempts to find get public key for '' @ fp)),
            call (CalledGetPublicKeyByFingerprint fp) (call (CalledLoadPgpKey fp) w))"
    by (simp add: discoverPublicKey_def Let_def split: sum.splits)
next
  assume a: "p \<in> set (Admins t)
        \<and> (\<forall>w'. isl (loadPgpKey env w' (Person.Fingerprint p))
                \<and> isl (client_GetPublicKeyByFingerprint env w' (Person.Fingerprint p)))"
  then have "p \<in> set (Admins t)"
    and "\<forall>w'. isl (loadPgpKey env w' (Person.Fingerprint p))
                \<and> isl (client_GetPublicKeyByFingerprint env w' (Person.Fingerprint p))"
    by simp_all
  then show "isl (fst (fetchAdminPublicKeys env t w))"
    unfolding fetchAdminPublicKeys_def by (rule fetchAdminPublicKeys_loop_fails)
next
  assume "fetchAdminPublicKeys env t w = (Inr adminKeys, w')"
  then have run: "fetchAdminPublicKeys_loop env (Admins t) [] w = (Inr adminKeys, w')"
    by (simp add: fetchAdminPublicKeys_def)
  from fetchAdminPublicKeys_loop_length [OF run]
  show "length adminKeys = length (Admins t)" by simp
  from fetchAdminPublicKeys_loop_keys [OF run]
  show "list_all2 (\<lambda>admin k. \<exists>wi.
              fst (discoverPublicKey env (Person.Fingerprint admin) wi) = Inr k)
            (Admins t) adminKeys"
    by simp
next
  assume "fetchAdminPublicKeys env t w = (Inl err, w')"
  then have "fetchAdminPublicKeys_loop env (Admins t) [] w = (Inl err, w')"
    by (simp add: fetchAdminPublicKeys_def)
  then show "\<exists>admin\<in>set (Admins t). \<exists>wi.
              fst (discoverPublicKey env (Person.Fingerprint admin) wi) = Inl err"
    by (rule fetchAdminPublicKeys_loop_error)
next
  assume "\<forall>admin\<in>set (Admins t). \<forall>wi.
          fst (discoverPublicKey env (Person.Fingerprint admin) wi) = r admin"
  from fetchAdminPublicKeys_loop_exact [OF this, of "[]" w]
  show "fst (fetchAdminPublicKeys env t w) =
           (case find (\<lambda>admin. isl (r admin)) (Admins t) of
              None \<Rightarrow> Inr (map (\<lambda>admin. projr (r admin)) (Admins t))
            | Some admin \<Rightarrow> Inl (projl (r admin)))"
    by (simp add: fetchAdminPublicKeys_def split: option.splits)
qed

theorem admin_key_resolution_witness:
  "discoverPublicKey env_keys ''AAAA'' w0
     = (Inr ''AAAA'', w0\<lparr>events := [CalledLoadPgpKey ''AAAA'']\<rparr>)
   \<and> discoverPublicKey env_keys ''BBBB'' w0
       = (Inr ''BBBB'',
          w0\<lparr>events := [CalledLoadPgpKey ''BBBB'', CalledGetPublicKeyByFingerprint ''BBBB'']\<rparr>)
   \<and> isl (fst (fetchAdminPublicKeys env_keys initech w0))
   \<and> fst (fetchAdminPublicKeys env_keys initech w0)
       = Inl (Errorf ''failed multiple attempts to find get public key for CCCC'')
   \<and> (\<exists>admin\<in>set (Admins initech). \<exists>wi.
         fst (discoverPublicKey env_keys (Person.Fingerprint admin) wi)
           = Inl (Errorf ''failed multiple attempts to find get public key for CCCC''))
   \<and> fst (fetchAdminPublicKeys env_keyring_alice initech w0) = Inr [''AAAA'', ''CCCC'']
   \<and> length [''AAAA'', ''CCCC''] = length (Admins initech)
   \<and> list_all2 (\<lambda>admin k. \<exists>wi.
         fst (discoverPublicKey env_keyring_alice (Person.Fingerprint admin) wi) = Inr k)
       (Admins initech) [''AAAA'', ''CCCC'']"
proof -
  have local: "loadPgpKey env_keys w0 ''AAAA'' = Inr ''AAAA''"
    by (simp add: env_keys_def env_keyring_alice_def env0_def)
  from admin_key_resolution [where env = env_keys and w = w0 and fp = "''AAAA''"
      and key = "''AAAA''", THEN conjunct1, THEN mp, OF local]
  have c1: "discoverPublicKey env_keys ''AAAA'' w0
                 = (Inr ''AAAA'', w0\<lparr>events := [CalledLoadPgpKey ''AAAA'']\<rparr>)"
    by (simp add: call_def w0_def)
  have nolocal: "loadPgpKey env_keys w0 ''BBBB'' = Inl (Errorf ''no such key'')"
    by (simp add: env_keys_def env_keyring_alice_def env0_def)
  from admin_key_resolution [where env = env_keys and w = w0 and fp = "''BBBB''"
      and e = "Errorf ''no such key''", THEN conjunct2, THEN conjunct1, THEN mp, OF nolocal]
  have c2: "discoverPublicKey env_keys ''BBBB'' w0
       = (Inr ''BBBB'',
          w0\<lparr>events := [CalledLoadPgpKey ''BBBB'', CalledGetPublicKeyByFingerprint ''BBBB'']\<rparr>)"
    by (simp add: call_def w0_def env_keys_def env_keyring_alice_def env0_def)
  have unresolved: "carol \<in> set (Admins initech)
        \<and> (\<forall>w'. isl (loadPgpKey env_keys w' (Person.Fingerprint carol))
                \<and> isl (client_GetPublicKeyByFingerprint env_keys w' (Person.Fingerprint carol)))"
    by (simp add: Admins_def initech_def alice_def bob_def carol_def env_keys_def
        env_keyring_alice_def env0_def)
  from admin_key_resolution [where env = env_keys and w = w0 and p = carol and t = initech,
      THEN conjunct2, THEN conjunct2, THEN conjunct1, THEN mp, OF unresolved]
  have c3: "isl (fst (fetchAdminPublicKeys env_keys initech w0))" .
  have admins: "Admins initech = [alice, carol]"
    by (simp add: Admins_def initech_def alice_def bob_def carol_def)
  let ?r = "\<lambda>admin. fst (discoverPublicKey env_keys (Person.Fingerprint admin) w0)"
  have same: "\<forall>admin\<in>set (Admins initech). \<forall>wi.
                fst (discoverPublicKey env_keys (Person.Fingerprint admin) wi) = ?r admin"
    by (simp add: discoverPublicKey_def Let_def env_keys_def env_keyring_alice_def env0_def)
  from admin_key_resolution [where env = env_keys and w = w0 and t = initech and r = ?r,
      THEN conjunct2, THEN conjunct2, THEN conjunct2, THEN conjunct2, THEN conjunct2,
      THEN mp, OF same]
  have c4: "fst (fetchAdminPublicKeys env_keys initech w0)
       = Inl (Errorf ''failed multiple attempts to find get public key for CCCC'')"
    by (simp add: admins discoverPublicKey_def Let_def env_keys_def env_keyring_alice_def
        env0_def alice_def carol_def)
  have failed: "fetchAdminPublicKeys env_keys initech w0
       = (Inl (Errorf ''failed multiple attempts to find get public key for CCCC''),
          w0\<lparr>events := [CalledLoadPgpKey ''AAAA'', CalledLoadPgpKey ''CCCC'',
                         CalledGetPublicKeyByFingerprint ''CCCC'']\<rparr>)"
    by (simp add: fetchAdminPublicKeys_def admins discoverPublicKey_def Let_def env_keys_def
        env_keyring_alice_def env0_def alice_def carol_def call_def w0_def)
  from admin_key_resolution [where env = env_keys and w = w0 and t = initech,
      THEN conjunct2, THEN conjunct2, THEN conjunct2, THEN conjunct2, THEN conjunct1,
      THEN mp, OF failed]
  have c5: "\<exists>admin\<in>set (Admins initech). \<exists>wi.
         fst (discoverPublicKey env_keys (Person.Fingerprint admin) wi)
           = Inl (Errorf ''failed multiple attempts to find get public key for CCCC'')" .
  let ?s = "\<lambda>admin. fst (discoverPublicKey env_keyring_alice (Person.Fingerprint admin) w0)"
  have same': "\<forall>admin\<in>set (Admins initech). \<forall>wi.
                fst (discoverPublicKey env_keyring_alice (Person.Fingerprint admin) wi) = ?s admin"
    by (simp add: discoverPublicKey_def Let_def env_keyring_alice_def env0_def)
  from admin_key_resolution [where env = env_keyring_alice and w = w0 and t = initech
      and r = ?s,
      THEN conjunct2, THEN conjunct2, THEN conjunct2, THEN conjunct2, THEN conjunct2,
      THEN mp, OF same']
  have c6: "fst (fetchAdminPublicKeys env_keyring_alice initech w0) = Inr [''AAAA'', ''CCCC'']"
    by (simp add: admins discoverPublicKey_def Let_def env_keyring_alice_def
        env0_def alice_def carol_def)
  have resolved: "fetchAdminPublicKeys env_keyring_alice initech w0
       = (Inr [''AAAA'', ''CCCC''],
          w0\<lparr>events := [CalledLoadPgpKey ''AAAA'', CalledLoadPgpKey ''CCCC'',
                         CalledGetPublicKeyByFingerprint ''CCCC'']\<rparr>)"
    by (simp add: fetchAdminPublicKeys_def admins discoverPublicKey_def Let_def
        env_keyring_alice_def env0_def alice_def carol_def call_def w0_def)
  note c78 = admin_key_resolution [where env = env_keyring_alice and w = w0 and t = initech,
      THEN conjunct2, THEN conjunct2, THEN conjunct2, THEN conjunct1, THEN mp, OF resolved]
  from c1 c2 c3 c4 c5 c6 c78 [THEN conjunct1] c78 [THEN conjunct2]
  show ?thesis by (intro conjI)
qed

text \<open>
  C8. For a join request that has not expired and whose key could be loaded, a
  \<^verbatim>\<open>Forbidden\<close> answer to the roster fetch is not an error: the iteration hands
  \<open>returnError\<close> on as it found it, prints only a notice that the request has not been
  approved yet, calls neither the deletion of the request nor a save, and leaves the stored
  requests and the roster store as they were, so the request is still there for the next
  pass.
\<close>

theorem processRequest_forbidden:
  assumes "\<not> (time_Now env w - RequestedAt request > sevenDays)"
    and "loadPrivateKeyFromFingerprint env (RequestToJoinTeam.Fingerprint request) w
           = (Inr unlockedKey, w1)"
    and "client_GetTeamRoster env w1 unlockedKey (TeamUUID request) = Inl ErrForbidden"
  shows "processRequest env err request returnError w =
           (returnError,
            call (Printed (FormatInfo
                   (''Your request to join '' @ TeamName request @ '' hasn't been approved'')))
              (call (CalledGetTeamRoster unlockedKey (TeamUUID request)) w1))
         \<and> requests (snd (processRequest env err request returnError w)) = requests w
         \<and> rosters (snd (processRequest env err request returnError w)) = rosters w
         \<and> saves (snd (processRequest env err request returnError w)) = saves w"
proof -
  have eq: "processRequest env err request returnError w =
           (returnError,
            call (Printed (FormatInfo
                   (''Your request to join '' @ TeamName request @ '' hasn't been approved'')))
              (call (CalledGetTeamRoster unlockedKey (TeamUUID request)) w1))"
    using assms by (simp add: processRequest_def Let_def)
  from loadPrivateKeyFromFingerprint_frame [OF assms(2)]
  have "requests w1 = requests w" "rosters w1 = rosters w" "saves w1 = saves w"
    by simp_all
  with eq show ?thesis by (simp add: saves_def)
qed

theorem processRequest_forbidden_witness:
  "processRequest env_forbidden None request_new None (w0\<lparr>requests := [request_new]\<rparr>)
     = (None,
        w0\<lparr>requests := [request_new],
            events := [CalledLoadPgpKey ''BBBB'', CalledGetDecryptedPrivateKey ''BBBB'',
                       CalledGetTeamRoster ''BBBB'' ''u9'',
                       Printed (FormatInfo ''Your request to join Initech hasn't been approved'')]\<rparr>)
   \<and> fst (processRequest env_forbidden None request_new (Some (Errorf ''earlier''))
            (w0\<lparr>requests := [request_new]\<rparr>)) = Some (Errorf ''earlier'')"
proof -
  let ?w = "w0\<lparr>requests := [request_new]\<rparr>"
  let ?w1 = "w0\<lparr>requests := [request_new],
                 events := [CalledLoadPgpKey ''BBBB'', CalledGetDecryptedPrivateKey ''BBBB'']\<rparr>"
  have fresh: "\<not> (time_Now env_forbidden ?w - RequestedAt request_new > sevenDays)"
    by (simp add: env_forbidden_def env0_def request_new_def sevenDays_def)
  have loaded: "loadPrivateKeyFromFingerprint env_forbidden
                  (RequestToJoinTeam.Fingerprint request_new) ?w = (Inr ''BBBB'', ?w1)"
    by (simp add: loadPrivateKeyFromFingerprint_def Let_def env_forbidden_def env0_def
        request_new_def call_def w0_def)
  have forbidden: "client_GetTeamRoster env_forbidden ?w1 ''BBBB'' (TeamUUID request_new)
                     = Inl ErrForbidden"
    by (simp add: env_forbidden_def env0_def)
  from processRequest_forbidden [OF fresh loaded forbidden, of None None, THEN conjunct1]
  have first: "processRequest env_forbidden None request_new None ?w
     = (None,
        w0\<lparr>requests := [request_new],
            events := [CalledLoadPgpKey ''BBBB'', CalledGetDecryptedPrivateKey ''BBBB'',
                       CalledGetTeamRoster ''BBBB'' ''u9'',
                       Printed (FormatInfo ''Your request to join Initech hasn't been approved'')]\<rparr>)"
    by (simp add: call_def request_new_def w0_def)
  from processRequest_forbidden [OF fresh loaded forbidden,
      of None "Some (Errorf ''earlier'')", THEN conjunct1]
  have second: "fst (processRequest env_forbidden None request_new (Some (Errorf ''earlier'')) ?w)
                  = Some (Errorf ''earlier'')"
    by simp
  from first second show ?thesis by (intro conjI)
qed

text \<open>
  C3. A join request made eight days ago, at the only pass over it: the expiry notice is
  printed, the deletion of the record is called and the record is gone, no key is loaded
  and no roster fetched. But the pass reports no error: the expired branch assigns the
  function-level \<^verbatim>\<open>err\<close> to \<^verbatim>\<open>returnError\<close>, which is \<^verbatim>\<open>nil\<close> inside the
  loop, and the run exits with code 0. The same assignment wipes out an error recorded for
  an earlier request: the pass over a request whose key cannot be loaded reports that error,
  the pass over that request followed by the expired one reports none.
\<close>

theorem processRequestsToJoinTeam_expired_not_reported:
  "processRequestsToJoinTeam env0 (w0\<lparr>requests := [request_old]\<rparr>)
     = (None,
        w0\<lparr>requests := [],
            events := [CalledRequestsToJoinTeams,
                       Printed (FormatWarning ''Your request to join Initech has expired'' None),
                       CalledDeleteRequestToJoinTeam ''u9'' ''BBBB'']\<rparr>)
   \<and> fst (teamFetch env0 (w0\<lparr>requests := [request_old]\<rparr>)) = exitCode 0
   \<and> fst (processRequestsToJoinTeam env_forbidden (w0\<lparr>requests := [request_nokey]\<rparr>))
       = Some (Errorf ''no such key'')
   \<and> fst (processRequestsToJoinTeam env_forbidden
            (w0\<lparr>requests := [request_nokey, request_old]\<rparr>)) = None"
proof -
  have expired: "processRequestsToJoinTeam env0 (w0\<lparr>requests := [request_old]\<rparr>)
     = (None,
        w0\<lparr>requests := [],
            events := [CalledRequestsToJoinTeams,
                       Printed (FormatWarning ''Your request to join Initech has expired'' None),
                       CalledDeleteRequestToJoinTeam ''u9'' ''BBBB'']\<rparr>)"
    by (simp add: processRequestsToJoinTeam_def RequestsToJoinTeams_def processRequest_def
        DeleteRequestToJoinTeam_def Let_def env0_def w0_def request_old_def call_def
        sevenDays_def eightDays_def)
  have run: "fst (teamFetch env0 (w0\<lparr>requests := [request_old]\<rparr>)) = exitCode 0"
    by (simp add: teamFetch_def expired Let_def) (simp add: env0_def)
  have nokey: "fst (processRequestsToJoinTeam env_forbidden (w0\<lparr>requests := [request_nokey]\<rparr>))
       = Some (Errorf ''no such key'')"
    by (simp add: processRequestsToJoinTeam_def RequestsToJoinTeams_def processRequest_def
        loadPrivateKeyFromFingerprint_def Let_def env_forbidden_def env0_def w0_def
        request_nokey_def call_def sevenDays_def eightDays_def)
  have wiped: "fst (processRequestsToJoinTeam env_forbidden
            (w0\<lparr>requests := [request_nokey, request_old]\<rparr>)) = None"
    by (simp add: processRequestsToJoinTeam_def RequestsToJoinTeams_def processRequest_def
        loadPrivateKeyFromFingerprint_def DeleteRequestToJoinTeam_def Let_def
        env_forbidden_def env0_def w0_def request_nokey_def request_old_def call_def
        sevenDays_def eightDays_def)
  from expired run nokey wiped show ?thesis by (intro conjI)
qed

text \<open>
  C2. Alice is a member of one team with the members Alice and Bob; the roster is unchanged
  and there is no join request. Fetching Alice's public key fails, fetching and importing
  Bob's key after it succeeds. \<open>fetchTeamKeys\<close> keeps the error of the last member only,
  so it returns \<^verbatim>\<open>nil\<close> and the run exits with code 0 although a key fetch failed. With
  the same two members in the other order the error is returned.
\<close>

theorem teamFetch_member_key_error_lost:
  "fst (getAndImportKeyToGpg env_member_key_missing (Person.Fingerprint alice) w0)
     = Some (Errorf ''Couldn't find key'')
   \<and> fst (getAndImportKeyToGpg env_member_key_missing (Person.Fingerprint bob) w0) = None
   \<and> fst (fetchTeamKeys env_member_key_missing acme w0) = None
   \<and> fst (teamFetch env_member_key_missing w0) = exitCode 0
   \<and> fst (fetchTeamKeys env_member_key_missing (acme\<lparr>People := [bob, alice]\<rparr>) w0)
       = Some (Errorf ''Couldn't find key'')"
proof -
  have a: "fst (getAndImportKeyToGpg env_member_key_missing (Person.Fingerprint alice) w0)
     = Some (Errorf ''Couldn't find key'')"
    by (simp add: getAndImportKeyToGpg_def Let_def env_member_key_missing_def
        env_unchanged_def env0_def alice_def)
  have b: "fst (getAndImportKeyToGpg env_member_key_missing (Person.Fingerprint bob) w0) = None"
    by (simp add: getAndImportKeyToGpg_def Let_def env_member_key_missing_def
        env_unchanged_def env0_def bob_def)
  have c: "fst (fetchTeamKeys env_member_key_missing acme w0) = None"
    by (simp add: fetchTeamKeys_def RunWithCheckboxes_def getAndImportKeyToGpg_def Let_def
        env_member_key_missing_def env_unchanged_def env0_def acme_def alice_def bob_def)
  have e: "fst (fetchTeamKeys env_member_key_missing (acme\<lparr>People := [bob, alice]\<rparr>) w0)
       = Some (Errorf ''Couldn't find key'')"
    by (simp add: fetchTeamKeys_def RunWithCheckboxes_def getAndImportKeyToGpg_def Let_def
        env_member_key_missing_def env_unchanged_def env0_def acme_def alice_def bob_def)
  have d: "fst (teamFetch env_member_key_missing w0) = exitCode 0"
    by (simp add: teamFetch_def processRequestsToJoinTeam_def RequestsToJoinTeams_def
        doUpdateTeam_def doUpdateTeam_roster_def loadPrivateKeyFromFingerprint_def
        fetchAndUpdateRoster_def Roster_def fetchTeamKeys_def RunWithCheckboxes_def
        getAndImportKeyToGpg_def Let_def env_member_key_missing_def env_unchanged_def
        env0_def w0_def acme_def alice_def bob_def call_def)
  from a b c d e show ?thesis by (intro conjI)
qed

end
